theory Spec2Isabelle
  imports Main "HOL-Library.AList"
begin

section \<open>Data model of package bees\<close>

text \<open>
  Go pointers are references into explicit stores. A reference is never nil: where the
  source can hold a nil pointer (the results of the lookups) the model uses an option.
  The registry stores pointers to interface values; no code of the file assigns through
  such a pointer, so a pointer to an interface value and the worker object it designates
  are one reference here.
\<close>

type_synonym ref = nat

text \<open>
  Modelled from the spec: the types \<open>BeeOption\<close>, \<open>Placeholder\<close> and \<open>Chain\<close> are
  declared outside the file; the core only stores and passes them on, so each is an
  opaque named value.
\<close>

datatype BeeOption = BeeOption string
datatype Placeholder = Placeholder string
datatype Chain = Chain string

text \<open>The base struct \<open>Bee\<close>; times are clock readings, zero when unset.\<close>

record Bee =
  BeeName :: string
  BeeNamespace :: string
  BeeDescription :: string
  BeeOptions :: "BeeOption list"
  lastEvent :: nat
  lastAction :: nat
  Running :: bool
  SigChan :: ref
  waitGroup :: ref

record BeeInstance =
  Name :: string
  Class :: string
  Description :: string
  Options :: "BeeOption list"

record Event =
  EventBee :: string
  EventName :: string
  EventOptions :: "Placeholder list"

text \<open>A call either returns a value or panics with a (non-nil) panic value.\<close>

datatype 'a outcome = Return 'a | Panic string

text \<open>The lines written with \<open>log.Println\<close>, one constructor for each call site.\<close>

datatype logline =
    LogBlank
  | LogWaking
  | LogStoppedHandler
  | LogEventReceived string string
  | LogOptions Placeholder
  | LogFatalChain string
  | LogReady string string
  | LogEvil string int
  | LogFatalBee string int
  | LogStopping string

text \<open>The tasks started with a \<open>go\<close> statement.\<close>

datatype task = startBee_task ref int | execChains_task Event

text \<open>
  What the code does to the outside, in the order it does it: log lines, calls of the
  methods of \<open>BeeInterface\<close> (whose bodies are the plugins' own; a call of \<open>Run\<close>
  is recorded with how it ended), operations on wait groups and channels, and the tasks
  it launches.
\<close>

datatype effect =
    Println logline
  | CallLogEvent ref
  | CallRun ref "unit outcome"
  | CallStop ref
  | CallStart ref
  | CallSetSigChan ref ref
  | CallExecChains Event
  | WgAdd ref int
  | WgDone ref
  | Close ref
  | Go task

text \<open>
  The package variables \<open>eventsIn\<close>, \<open>bees\<close>, \<open>factories\<close> and \<open>chains\<close>, the
  stores of worker objects, wait groups and channels, and the effects so far. A Go map
  is an association list with distinct keys; its iteration order, which Go leaves
  open, is the order of the list.
\<close>

record world =
  eventsIn :: ref
  bees :: "(string \<times> ref) list"
  factories :: "(string \<times> ref) list"
  chains :: "Chain list"
  objs :: "ref \<Rightarrow> Bee"
  next_obj :: ref
  wg_counter :: "ref \<Rightarrow> int"
  next_wg :: ref
  chan_closed :: "ref \<Rightarrow> bool"
  next_chan :: ref
  trace :: "effect list"

definition emit :: "world \<Rightarrow> effect \<Rightarrow> world" where
  "emit w e = w\<lparr>trace := trace w @ [e]\<rparr>"

definition println :: "world \<Rightarrow> logline \<Rightarrow> world" where
  "println w l = emit w (Println l)"

text \<open>The effects between an earlier state and a later one.\<close>

definition since :: "world \<Rightarrow> world \<Rightarrow> effect list" where
  "since w w' = drop (length (trace w)) (trace w')"

text \<open>The number of times \<open>Run\<close> was called on a worker.\<close>

fun is_CallRun :: "ref \<Rightarrow> effect \<Rightarrow> bool" where
  "is_CallRun bee (CallRun b r) = (b = bee)"
| "is_CallRun bee _ = False"

definition attempts :: "ref \<Rightarrow> effect list \<Rightarrow> nat" where
  "attempts bee t = length (filter (is_CallRun bee) t)"

definition zero_Bee :: Bee where
  "zero_Bee = \<lparr>BeeName = [], BeeNamespace = [], BeeDescription = [], BeeOptions = [],
     lastEvent = 0, lastAction = 0, Running = False, SigChan = 0, waitGroup = 0\<rparr>"

text \<open>The state after the package is initialised: the \<open>var\<close> block, then \<open>init\<close>.\<close>

definition init_world :: world where
  "init_world = \<lparr>eventsIn = 0, bees = [], factories = [], chains = [],
     objs = (\<lambda>_. zero_Bee), next_obj = 0, wg_counter = (\<lambda>_. 0), next_wg = 0,
     chan_closed = (\<lambda>_. False), next_chan = 1, trace = [Println LogWaking]\<rparr>"

subsection \<open>Channels and wait groups\<close>

text \<open>\<open>make(chan T)\<close>: a new, open channel.\<close>

definition make_chan :: "world \<Rightarrow> world \<times> ref" where
  "make_chan w =
     (w\<lparr>chan_closed := (chan_closed w)(next_chan w := False), next_chan := Suc (next_chan w)\<rparr>,
      next_chan w)"

text \<open>\<open>close(c)\<close> panics on a channel that is closed already.\<close>

definition close_chan :: "world \<Rightarrow> ref \<Rightarrow> world \<times> unit outcome" where
  "close_chan w c =
     (if chan_closed w c then (w, Panic ''close of closed channel'')
      else (emit (w\<lparr>chan_closed := (chan_closed w)(c := True)\<rparr>) (Close c), Return ()))"

text \<open>\<open>&sync.WaitGroup{}\<close>: a new wait group, its counter zero.\<close>

definition new_WaitGroup :: "world \<Rightarrow> world \<times> ref" where
  "new_WaitGroup w =
     (w\<lparr>wg_counter := (wg_counter w)(next_wg w := 0), next_wg := Suc (next_wg w)\<rparr>,
      next_wg w)"

text \<open>
  The counter of a \<open>sync.WaitGroup\<close> is a signed 32-bit integer: a sum is reduced
  into the range from \<open>-2147483648\<close> to \<open>2147483647\<close>, wrapping around.
\<close>

definition int32 :: "int \<Rightarrow> int" where
  "int32 x = (x + 2147483648) mod 4294967296 - 2147483648"

text \<open>
  \<open>sync.WaitGroup.Add\<close> adds to the counter and then panics when the counter has become
  negative; \<open>Done\<close> is \<open>Add(-1)\<close>.
\<close>

definition wg_Add :: "world \<Rightarrow> ref \<Rightarrow> int \<Rightarrow> world \<times> unit outcome" where
  "wg_Add w g delta =
     (let v = int32 (wg_counter w g + delta);
          w' = emit (w\<lparr>wg_counter := (wg_counter w)(g := v)\<rparr>) (WgAdd g delta)
      in if v < 0 then (w', Panic ''sync: negative WaitGroup counter'') else (w', Return ()))"

definition wg_Done :: "world \<Rightarrow> ref \<Rightarrow> world \<times> unit outcome" where
  "wg_Done w g =
     (let v = int32 (wg_counter w g - 1);
          w' = emit (w\<lparr>wg_counter := (wg_counter w)(g := v)\<rparr>) (WgDone g)
      in if v < 0 then (w', Panic ''sync: negative WaitGroup counter'') else (w', Return ()))"

subsection \<open>The methods of BeeInterface\<close>

text \<open>
  Modelled from the spec: the accessors \<open>Name\<close>, \<open>Description\<close> and \<open>WaitGroup\<close>
  of a worker are defined outside the file; they read the identifier, the description
  and the completion handle of the worker.
\<close>

definition bee_Name :: "world \<Rightarrow> ref \<Rightarrow> string" where
  "bee_Name w bee = BeeName (objs w bee)"

definition bee_Description :: "world \<Rightarrow> ref \<Rightarrow> string" where
  "bee_Description w bee = BeeDescription (objs w bee)"

definition bee_WaitGroup :: "world \<Rightarrow> ref \<Rightarrow> ref" where
  "bee_WaitGroup w bee = waitGroup (objs w bee)"

text \<open>
  \<open>Stop\<close>, \<open>Start\<close>, \<open>SetSigChan\<close> and \<open>LogEvent\<close> are the plugin's: the call is recorded
  and returns. \<open>Run\<close> is the plugin's run-loop: it returns or panics, as the parameter
  \<open>Run\<close> says for the state it is called in.
\<close>

definition call_Stop :: "world \<Rightarrow> ref \<Rightarrow> world" where
  "call_Stop w bee = emit w (CallStop bee)"

definition call_Start :: "world \<Rightarrow> ref \<Rightarrow> world" where
  "call_Start w bee = emit w (CallStart bee)"

definition call_SetSigChan :: "world \<Rightarrow> ref \<Rightarrow> ref \<Rightarrow> world" where
  "call_SetSigChan w bee c = emit w (CallSetSigChan bee c)"

definition call_LogEvent :: "world \<Rightarrow> ref \<Rightarrow> world" where
  "call_LogEvent w bee = emit w (CallLogEvent bee)"

definition call_Run :: "(world \<Rightarrow> ref \<Rightarrow> unit outcome) \<Rightarrow> world \<Rightarrow> ref \<Rightarrow> world \<times> unit outcome" where
  "call_Run Run w bee = (emit w (CallRun bee (Run w bee)), Run w bee)"

section \<open>The registry\<close>

definition RegisterBee :: "world \<Rightarrow> ref \<Rightarrow> world" where
  "RegisterBee w bee =
     (let w1 = println w (LogReady (bee_Name w bee) (bee_Description w bee))
      in w1\<lparr>bees := AList.update (bee_Name w1 bee) bee (bees w1)\<rparr>)"

definition GetBee :: "world \<Rightarrow> string \<Rightarrow> ref option" where
  "GetBee w identifier =
     (case map_of (bees w) identifier of Some bee \<Rightarrow> Some bee | None \<Rightarrow> None)"

definition GetBees :: "world \<Rightarrow> ref list" where
  "GetBees w = fold (\<lambda>(_, bee) r. r @ [bee]) (bees w) []"

definition GetBeeFactory :: "world \<Rightarrow> string \<Rightarrow> ref option" where
  "GetBeeFactory w identifier =
     (case map_of (factories w) identifier of Some f \<Rightarrow> Some f | None \<Rightarrow> None)"

definition GetBeeFactories :: "world \<Rightarrow> ref list" where
  "GetBeeFactories w = fold (\<lambda>(_, factory) r. r @ [factory]) (factories w) []"

definition Chains :: "world \<Rightarrow> Chain list" where
  "Chains w = chains w"

definition SetChains :: "world \<Rightarrow> Chain list \<Rightarrow> world" where
  "SetChains w cs = w\<lparr>chains := cs\<rparr>"

text \<open>The registry as a Go map holds each key once.\<close>

definition wf_registry :: "world \<Rightarrow> bool" where
  "wf_registry w = (distinct (map fst (bees w)) \<and> distinct (map fst (factories w)))"

section \<open>Supervision\<close>

text \<open>
  \<open>startBee\<close> registers two deferred calls and then runs the worker. On the way out
  \<open>Done\<close> runs first (its receiver was read when the \<open>defer\<close> statement ran); a panic
  raised by \<open>Done\<close> replaces the one in flight. The recovering function runs last:
  with a panic in flight it logs and calls \<open>startBee\<close> again, and what that call does
  is what \<open>startBee\<close> does.
\<close>

function startBee :: "(world \<Rightarrow> ref \<Rightarrow> unit outcome) \<Rightarrow> world \<Rightarrow> ref \<Rightarrow> int \<Rightarrow> world \<times> unit outcome" where
  "startBee Run w bee fatals =
     (if fatals \<ge> 3 then (println w (LogEvil (bee_Name w bee) fatals), Return ())
      else
        (let g = bee_WaitGroup w bee;
             (w1, r1) = call_Run Run w bee;
             (w2, r2) = wg_Done w1 g;
             r = (case r2 of Panic e \<Rightarrow> Panic e | Return _ \<Rightarrow> r1)
         in case r of
              Return _ \<Rightarrow> (w2, Return ())
            | Panic e \<Rightarrow> startBee Run (println w2 (LogFatalBee e fatals)) bee (fatals + 1)))"
  by pat_completeness auto
termination
  by (relation "measure (\<lambda>(Run, w, bee, fatals). nat (3 - fatals))") auto

text \<open>
  One pass through the body of \<open>startBee\<close> below the guard: the call of \<open>Run\<close>, then
  the deferred \<open>Done\<close>, and whether a panic is in flight when the recovering function
  runs.
\<close>

definition attempt :: "(world \<Rightarrow> ref \<Rightarrow> unit outcome) \<Rightarrow> world \<Rightarrow> ref \<Rightarrow> world \<times> unit outcome" where
  "attempt Run w bee =
     (let g = bee_WaitGroup w bee;
          (w1, r1) = call_Run Run w bee;
          (w2, r2) = wg_Done w1 g
      in (w2, case r2 of Panic e \<Rightarrow> Panic e | Return _ \<Rightarrow> r1))"

text \<open>
  Modelled from the spec: \<open>GetFactory\<close> is defined outside the file; it looks up the
  factory registered for a class and has none for an unknown class.
\<close>

definition GetFactory :: "world \<Rightarrow> string \<Rightarrow> ref option" where
  "GetFactory w identifier = map_of (factories w) identifier"

text \<open>
  The constructor \<open>New\<close> of a factory is the plugin's: the parameter \<open>New\<close> gives, for
  the factory and the arguments, the state after the call and the worker made, or a
  panic, which \<open>NewBeeInstance\<close> does not recover.
\<close>

type_synonym factory_New = "ref \<Rightarrow> string \<Rightarrow> string \<Rightarrow> BeeOption list \<Rightarrow> world \<Rightarrow> world \<times> ref outcome"

definition NewBeeInstance :: "factory_New \<Rightarrow> world \<Rightarrow> BeeInstance \<Rightarrow> world \<times> ref outcome" where
  "NewBeeInstance New w bee =
     (case GetFactory w (Class bee) of
        None \<Rightarrow> (w, Panic (''Unknown bee-class in config file: '' @ Class bee))
      | Some factory \<Rightarrow>
          (case New factory (Name bee) (Description bee) (Options bee) w of
             (w1, Panic e) \<Rightarrow> (w1, Panic e)
           | (w1, Return md) \<Rightarrow> (RegisterBee w1 md, Return md)))"

definition DeleteBee :: "world \<Rightarrow> ref \<Rightarrow> world" where
  "DeleteBee w bee =
     (let w1 = call_Stop w bee
      in w1\<lparr>bees := AList.delete (bee_Name w1 bee) (bees w1)\<rparr>)"

definition StopBees :: "world \<Rightarrow> world \<times> unit outcome" where
  "StopBees w =
     (let w1 = fold (\<lambda>(_, bee) w. call_Stop (println w (LogStopping (bee_Name w bee))) bee) (bees w) w;
          (w2, r) = close_chan w1 (eventsIn w1)
      in case r of
           Panic e \<Rightarrow> (w2, Panic e)
         | Return _ \<Rightarrow> (w2\<lparr>bees := []\<rparr>, Return ()))"

text \<open>What the loop of \<open>StopBees\<close> does, for the entries it visits.\<close>

definition stop_effects :: "world \<Rightarrow> (string \<times> ref) list \<Rightarrow> effect list" where
  "stop_effects w xs =
     concat (map (\<lambda>(_, bee). [Println (LogStopping (bee_Name w bee)), CallStop bee]) xs)"

definition RestartBee :: "world \<Rightarrow> ref \<Rightarrow> world \<times> unit outcome" where
  "RestartBee w bee =
     (let w1 = call_Stop w bee;
          (w2, c) = make_chan w1;
          w3 = call_SetSigChan w2 bee c;
          (w4, r) = wg_Add w3 (bee_WaitGroup w3 bee) 1
      in case r of
           Panic e \<Rightarrow> (w4, Panic e)
         | Return _ \<Rightarrow> (emit (call_Start w4 bee) (Go (startBee_task bee 0)), Return ()))"

definition NewBee :: "world \<Rightarrow> string \<Rightarrow> string \<Rightarrow> string \<Rightarrow> BeeOption list \<Rightarrow> world \<times> Bee outcome" where
  "NewBee w name factoryName description options =
     (let (w1, c) = make_chan w;
          (w2, g) = new_WaitGroup w1;
          b = \<lparr>BeeName = name, BeeNamespace = factoryName, BeeDescription = description,
               BeeOptions = options, lastEvent = 0, lastAction = 0, Running = False,
               SigChan = c, waitGroup = g\<rparr>;
          (w3, r) = wg_Add w2 (waitGroup b) 1
      in case r of
           Panic e \<Rightarrow> (w3, Panic e)
         | Return _ \<Rightarrow> (w3, Return b))"

section \<open>The event bus\<close>

text \<open>
  The task that \<open>handleEvents\<close> launches for an event: \<open>execChains\<close> is the rule
  engine's, and returns or panics as the parameter says; the deferred function recovers
  a panic and logs it.
\<close>

definition handleEvents_task :: "(world \<Rightarrow> Event \<Rightarrow> unit outcome) \<Rightarrow> world \<Rightarrow> Event \<Rightarrow> world \<times> unit outcome" where
  "handleEvents_task execChains w event =
     (let (w1, r) = (emit w (CallExecChains event), execChains w event)
      in case r of
           Panic e \<Rightarrow> (println w1 (LogFatalChain e), Return ())
         | Return _ \<Rightarrow> (w1, Return ()))"

text \<open>
  How the dispatcher ends on the events that the workers send, in order: it left the
  loop after the channel was closed, it waits for the next event, or it panicked (and
  nothing in \<open>handleEvents\<close> recovers a panic of the loop itself). A receive on the
  closed channel reports so at once, the channel having no buffer. The description that
  \<open>GetEventDescriptor\<close> adds to the log line is the rule engine's and is left out. The
  task for an event is launched, not awaited.
\<close>

datatype status = Stopped | Blocked | Crashed string

fun handleEvents :: "world \<Rightarrow> Event list \<Rightarrow> world \<times> status" where
  "handleEvents w [] =
     (if chan_closed w (eventsIn w)
      then (println (println w LogBlank) LogStoppedHandler, Stopped)
      else (w, Blocked))"
| "handleEvents w (event # pending) =
     (if chan_closed w (eventsIn w)
      then (println (println w LogBlank) LogStoppedHandler, Stopped)
      else
        (case GetBee w (EventBee event) of
           None \<Rightarrow> (w, Crashed ''runtime error: invalid memory address or nil pointer dereference'')
         | Some bee \<Rightarrow>
             (let w1 = call_LogEvent w bee;
                  w2 = println (println w1 LogBlank) (LogEventReceived (EventBee event) (EventName event));
                  w3 = fold (\<lambda>v w. println w (LogOptions v)) (EventOptions event) w2;
                  w4 = emit w3 (Go (execChains_task event))
              in handleEvents w4 pending)))"

section \<open>A sample plugin and sample states\<close>

text \<open>
  A plugin of the usual shape, for running the model on concrete states: its constructor
  builds the base struct with \<open>NewBee\<close> and returns a pointer to the new worker.
\<close>

definition exec_New :: factory_New where
  "exec_New factory name description options w =
     (case NewBee w name ''exec'' description options of
        (w1, Panic e) \<Rightarrow> (w1, Panic e)
      | (w1, Return b) \<Rightarrow>
          (w1\<lparr>objs := (objs w1)(next_obj w1 := b), next_obj := Suc (next_obj w1)\<rparr>,
           Return (next_obj w1)))"

definition light1 :: BeeInstance where
  "light1 = \<lparr>Name = ''light1'', Class = ''exec'', Description = ''a light'', Options = []\<rparr>"

text \<open>
  The initial state with the factory \<open>exec\<close> registered, and the same after \<open>light1\<close>
  has been instantiated.
\<close>

definition hive0 :: world where
  "hive0 = init_world\<lparr>factories := [(''exec'', 0)]\<rparr>"

definition hive :: world where
  "hive = fst (NewBeeInstance exec_New hive0 light1)"

text \<open>A run-loop that panics whenever it is called.\<close>

definition crashing_Run :: "world \<Rightarrow> ref \<Rightarrow> unit outcome" where
  "crashing_Run w bee = Panic ''boom''"

text \<open>Two workers made and not registered; and \<open>hive\<close> with a second worker of the
  name \<open>light1\<close> made and not registered.\<close>

definition nursery :: world where
  "nursery = fst (exec_New 0 ''b'' ''second'' [] (fst (exec_New 0 ''a'' ''first'' [] hive0)))"

definition hive2 :: world where
  "hive2 = fst (exec_New 0 ''light1'' ''another light'' [] hive)"

section \<open>Auxiliary facts\<close>

lemma fold_snoc_snd: "fold (\<lambda>(_, v) r. r @ [v]) xs acc = acc @ map snd xs"
  by (induction xs arbitrary: acc) (auto split: prod.splits)

lemma GetBees_eq: "GetBees w = map snd (bees w)"
  by (simp add: GetBees_def fold_snoc_snd)

lemma GetBeeFactories_eq: "GetBeeFactories w = map snd (factories w)"
  by (simp add: GetBeeFactories_def fold_snoc_snd)

lemma GetBee_eq: "GetBee w identifier = map_of (bees w) identifier"
  by (simp add: GetBee_def split: option.splits)

lemma GetBeeFactory_eq: "GetBeeFactory w identifier = map_of (factories w) identifier"
  by (simp add: GetBeeFactory_def split: option.splits)

lemma bees_RegisterBee: "bees (RegisterBee w bee) = AList.update (bee_Name w bee) bee (bees w)"
  by (simp add: RegisterBee_def println_def emit_def bee_Name_def Let_def)

lemma objs_RegisterBee: "objs (RegisterBee w bee) = objs w"
  by (simp add: RegisterBee_def println_def emit_def Let_def)

lemma bee_Name_RegisterBee: "bee_Name (RegisterBee w bee) = bee_Name w"
  by (simp add: bee_Name_def objs_RegisterBee fun_eq_iff)

lemma length_AList_update:
  "length (AList.update k v al) = (if k \<in> fst ` set al then length al else Suc (length al))"
  by (induction al) auto

lemma fold_RegisterBee:
  "distinct (map (bee_Name w) workers) \<Longrightarrow> bee_Name w ` set workers \<inter> fst ` set (bees w) = {} \<Longrightarrow>
   length (bees (fold (\<lambda>bee w. RegisterBee w bee) workers w)) = length (bees w) + length workers"
proof (induction workers arbitrary: w)
  case Nil
  then show ?case by simp
next
  case (Cons b bs)
  let ?w1 = "RegisterBee w b"
  have n: "bee_Name ?w1 = bee_Name w" by (rule bee_Name_RegisterBee)
  have d: "distinct (map (bee_Name ?w1) bs)" using Cons.prems(1) by (simp add: n)
  have k: "fst ` set (bees ?w1) = {bee_Name w b} \<union> fst ` set (bees w)"
    by (simp add: bees_RegisterBee dom_update)
  have i: "bee_Name ?w1 ` set bs \<inter> fst ` set (bees ?w1) = {}"
    using Cons.prems by (auto simp: n k)
  have l: "length (bees ?w1) = Suc (length (bees w))"
    using Cons.prems(2) by (auto simp: bees_RegisterBee length_AList_update)
  show ?case using Cons.IH [OF d i] l by simp
qed

lemma fold_stop:
  "fold (\<lambda>(_, bee) w. call_Stop (println w (LogStopping (bee_Name w bee))) bee) xs w =
   w\<lparr>trace := trace w @ stop_effects w xs\<rparr>"
proof (induction xs arbitrary: w)
  case Nil
  then show ?case by (simp add: stop_effects_def)
next
  case (Cons x xs)
  obtain n b where x: "x = (n, b)" by (cases x)
  let ?w1 = "call_Stop (println w (LogStopping (bee_Name w b))) b"
  have n: "bee_Name ?w1 = bee_Name w"
    by (simp add: fun_eq_iff bee_Name_def call_Stop_def println_def emit_def)
  have s: "stop_effects ?w1 xs = stop_effects w xs"
    by (simp add: stop_effects_def n)
  show ?case
    by (simp add: x Cons.IH s) (simp add: stop_effects_def call_Stop_def println_def emit_def)
qed

lemma StopBees_eq:
  "StopBees w =
     (if chan_closed w (eventsIn w)
      then (w\<lparr>trace := trace w @ stop_effects w (bees w)\<rparr>, Panic ''close of closed channel'')
      else (w\<lparr>trace := trace w @ stop_effects w (bees w) @ [Close (eventsIn w)],
               chan_closed := (chan_closed w)(eventsIn w := True), bees := []\<rparr>, Return ()))"
  by (simp add: StopBees_def fold_stop close_chan_def emit_def Let_def)

lemma CallStop_in_stop_effects: "(n, bee) \<in> set xs \<Longrightarrow> CallStop bee \<in> set (stop_effects w xs)"
  by (force simp: stop_effects_def)

text \<open>At the largest value the counter wraps around and \<open>Add\<close> panics.\<close>

lemma wg_Add_wraps:
  assumes "wg_counter w g = 2147483647"
  shows "snd (wg_Add w g 1) = Panic ''sync: negative WaitGroup counter'' \<and>
         wg_counter (fst (wg_Add w g 1)) g = - 2147483648"
  using assms by (simp add: wg_Add_def int32_def emit_def Let_def)

declare startBee.simps [simp del]

lemma attempt_eq:
  "attempt Run w bee =
     (w\<lparr>wg_counter := (wg_counter w)(bee_WaitGroup w bee := int32 (wg_counter w (bee_WaitGroup w bee) - 1)),
        trace := trace w @ [CallRun bee (Run w bee), WgDone (bee_WaitGroup w bee)]\<rparr>,
      if int32 (wg_counter w (bee_WaitGroup w bee) - 1) < 0
      then Panic ''sync: negative WaitGroup counter'' else Run w bee)"
  by (simp add: attempt_def call_Run_def wg_Done_def emit_def Let_def)

lemma startBee_attempt:
  "startBee Run w bee fatals =
     (if fatals \<ge> 3 then (println w (LogEvil (bee_Name w bee) fatals), Return ())
      else case attempt Run w bee of
             (w2, Return _) \<Rightarrow> (w2, Return ())
           | (w2, Panic e) \<Rightarrow> startBee Run (println w2 (LogFatalBee e fatals)) bee (fatals + 1))"
  by (subst startBee.simps) (simp add: attempt_def Let_def split: prod.splits outcome.splits)

lemma attempts_simps [simp]:
  "attempts bee [] = 0"
  "attempts bee (CallRun b r # t) = (if b = bee then Suc (attempts bee t) else attempts bee t)"
  "attempts bee (WgDone g # t) = attempts bee t"
  "attempts bee (Println l # t) = attempts bee t"
  "attempts bee (t @ u) = attempts bee t + attempts bee u"
  by (simp_all add: attempts_def)

lemma startBee_effects:
  "\<exists>w' t. startBee Run w bee fatals = (w', Return ()) \<and>
      trace w' = trace w @ t \<and>
      w' = w\<lparr>wg_counter := wg_counter w', trace := trace w'\<rparr> \<and>
      count_list t (WgDone (bee_WaitGroup w bee)) = attempts bee t \<and>
      (\<forall>g d. WgAdd g d \<notin> set t) \<and>
      (fatals < 3 \<longrightarrow> 1 \<le> attempts bee t) \<and>
      attempts bee t \<le> nat (3 - fatals)"
proof (induction "nat (3 - fatals)" arbitrary: w fatals)
  case 0
  then have "fatals \<ge> 3" by simp
  then have "startBee Run w bee fatals = (println w (LogEvil (bee_Name w bee) fatals), Return ())"
    by (simp add: startBee_attempt)
  then show ?case
    by (intro exI [of _ "println w (LogEvil (bee_Name w bee) fatals)"]
              exI [of _ "[Println (LogEvil (bee_Name w bee) fatals)]"])
       (use \<open>fatals \<ge> 3\<close> in \<open>simp add: println_def emit_def\<close>)
next
  case (Suc n)
  then have lt: "\<not> fatals \<ge> 3" by simp
  let ?g = "bee_WaitGroup w bee"
  let ?w2 = "fst (attempt Run w bee)"
  let ?r = "snd (attempt Run w bee)"
  have w2: "?w2 = w\<lparr>wg_counter := (wg_counter w)(?g := int32 (wg_counter w ?g - 1)),
        trace := trace w @ [CallRun bee (Run w bee), WgDone ?g]\<rparr>"
    by (simp add: attempt_eq)
  have at: "attempt Run w bee = (?w2, ?r)" by simp
  show ?case
  proof (cases ?r)
    case (Return u)
    then have "startBee Run w bee fatals = (?w2, Return ())"
      using lt by (subst startBee_attempt, subst at) simp
    then show ?thesis
      by (intro exI [of _ ?w2] exI [of _ "[CallRun bee (Run w bee), WgDone ?g]"])
         (use lt in \<open>simp add: w2\<close>)
  next
    case (Panic e)
    let ?w3 = "println ?w2 (LogFatalBee e fatals)"
    have st: "startBee Run w bee fatals = startBee Run ?w3 bee (fatals + 1)"
      using lt Panic by (subst startBee_attempt, subst at) simp
    have n: "n = nat (3 - (fatals + 1))" using Suc.hyps(2) by simp
    have g3: "bee_WaitGroup ?w3 bee = ?g"
      by (simp add: bee_WaitGroup_def println_def emit_def w2)
    from Suc.hyps(1) [OF n, of ?w3] obtain w' t where
      r: "startBee Run ?w3 bee (fatals + 1) = (w', Return ())" and
      t: "trace w' = trace ?w3 @ t" and
      f: "w' = ?w3\<lparr>wg_counter := wg_counter w', trace := trace w'\<rparr>" and
      c: "count_list t (WgDone ?g) = attempts bee t" and
      a: "\<forall>g d. WgAdd g d \<notin> set t" and
      u: "attempts bee t \<le> nat (3 - (fatals + 1))"
      unfolding g3 by blast
    let ?t = "[CallRun bee (Run w bee), WgDone ?g, Println (LogFatalBee e fatals)] @ t"
    have t': "trace w' = trace w @ ?t"
      using t by (simp add: println_def emit_def w2)
    have f': "w' = w\<lparr>wg_counter := wg_counter w', trace := trace w'\<rparr>"
      by (subst f) (simp add: println_def emit_def w2)
    show ?thesis
      by (intro exI [of _ w'] exI [of _ ?t]) (use st r t' f' c a u lt in simp)
  qed
qed

lemma since_append [simp]: "trace w' = trace w @ t \<Longrightarrow> since w w' = t"
  by (simp add: since_def)

lemma startBee_panic_step:
  assumes "fatals < 3" and "Run w bee = Panic p"
  shows "\<exists>e. startBee Run w bee fatals =
     startBee Run (w\<lparr>wg_counter := (wg_counter w)(bee_WaitGroup w bee := int32 (wg_counter w (bee_WaitGroup w bee) - 1)),
        trace := trace w @ [CallRun bee (Panic p), WgDone (bee_WaitGroup w bee),
                            Println (LogFatalBee e fatals)]\<rparr>) bee (fatals + 1)"
proof (cases "int32 (wg_counter w (bee_WaitGroup w bee) - 1) < 0")
  case True
  with assms show ?thesis
    by (intro exI [of _ "''sync: negative WaitGroup counter''"])
       (subst startBee_attempt, simp add: attempt_eq println_def emit_def)
next
  case False
  with assms show ?thesis
    by (intro exI [of _ p]) (subst startBee_attempt, simp add: attempt_eq println_def emit_def)
qed

lemma startBee_first_failure:
  assumes "CallRun bee (Panic e) \<in> set (since w (fst (startBee Run w bee 0)))"
  shows "2 \<le> attempts bee (since w (fst (startBee Run w bee 0)))"
proof -
  let ?g = "bee_WaitGroup w bee"
  let ?w2 = "fst (attempt Run w bee)"
  let ?r = "snd (attempt Run w bee)"
  have at: "attempt Run w bee = (?w2, ?r)" by simp
  have w2: "trace ?w2 = trace w @ [CallRun bee (Run w bee), WgDone ?g]"
    by (simp add: attempt_eq)
  show ?thesis
  proof (cases ?r)
    case (Return u)
    then have "startBee Run w bee 0 = (?w2, Return ())"
      by (subst startBee_attempt, subst at) simp
    moreover from Return have "Run w bee = Return ()"
      by (simp add: attempt_eq split: if_splits)
    ultimately show ?thesis using assms by (simp add: since_append [OF w2])
  next
    case (Panic x)
    let ?w3 = "println ?w2 (LogFatalBee x 0)"
    have st: "startBee Run w bee 0 = startBee Run ?w3 bee 1"
      using Panic by (subst startBee_attempt, subst at) simp
    from startBee_effects [of Run ?w3 bee 1] obtain w' t where
      r: "startBee Run ?w3 bee 1 = (w', Return ())" and
      t: "trace w' = trace ?w3 @ t" and
      u: "1 \<le> attempts bee t"
      by auto
    have "trace w' = trace w @ [CallRun bee (Run w bee), WgDone ?g, Println (LogFatalBee x 0)] @ t"
      using t w2 by (simp add: println_def emit_def)
    from since_append [OF this] show ?thesis using u by (simp add: st r)
  qed
qed

lemmas sample_defs = hive0_def init_world_def light1_def NewBeeInstance_def GetFactory_def
      exec_New_def NewBee_def make_chan_def new_WaitGroup_def wg_Add_def int32_def emit_def println_def
      RegisterBee_def bee_Name_def bee_Description_def bee_WaitGroup_def Let_def

lemma hive_eq:
  "hive = \<lparr>eventsIn = 0, bees = [(''light1'', 0)], factories = [(''exec'', 0)], chains = [],
     objs = (\<lambda>_. zero_Bee)(0 := \<lparr>BeeName = ''light1'', BeeNamespace = ''exec'',
        BeeDescription = ''a light'', BeeOptions = [], lastEvent = 0, lastAction = 0,
        Running = False, SigChan = 1, waitGroup = 0\<rparr>),
     next_obj = 1, wg_counter = (\<lambda>_. 0)(0 := 1), next_wg = 1,
     chan_closed = (\<lambda>_. False)(1 := False), next_chan = 2,
     trace = [Println LogWaking, WgAdd 0 1, Println (LogReady ''light1'' ''a light'')]\<rparr>"
  by (simp add: hive_def hive0_def init_world_def light1_def NewBeeInstance_def GetFactory_def
      exec_New_def NewBee_def make_chan_def new_WaitGroup_def wg_Add_def int32_def emit_def println_def
      RegisterBee_def bee_Name_def bee_Description_def Let_def)

lemma hive_crashed:
  "startBee crashing_Run hive 0 0 =
     (hive\<lparr>wg_counter := (wg_counter hive)(0 := - 2),
        trace := trace hive @
          [CallRun 0 (Panic ''boom''), WgDone 0, Println (LogFatalBee ''boom'' 0),
           CallRun 0 (Panic ''boom''), WgDone 0,
           Println (LogFatalBee ''sync: negative WaitGroup counter'' 1),
           CallRun 0 (Panic ''boom''), WgDone 0,
           Println (LogFatalBee ''sync: negative WaitGroup counter'' 2),
           Println (LogEvil ''light1'' 3)]\<rparr>, Return ())"
  by (simp add: startBee_attempt attempt_eq hive_eq crashing_Run_def println_def emit_def
      bee_WaitGroup_def bee_Name_def int32_def)

text \<open>
  After the three failed attempts the wait group of the sample worker stands at -2, and
  \<open>RestartBee\<close> panics in \<open>Add\<close> before it gets to \<open>Start\<close>.
\<close>

lemma RestartBee_after_three_failures:
  "wg_counter (fst (startBee crashing_Run hive 0 0)) 0 = - 2 \<and>
   snd (RestartBee (fst (startBee crashing_Run hive 0 0)) 0) =
     Panic ''sync: negative WaitGroup counter'' \<and>
   CallStart 0 \<notin> set (trace (fst (RestartBee (fst (startBee crashing_Run hive 0 0)) 0)))"
  by (simp add: hive_crashed)
     (simp add: hive_eq RestartBee_def call_Stop_def call_SetSigChan_def make_chan_def
        wg_Add_def int32_def emit_def bee_WaitGroup_def Let_def)

section \<open>The claims\<close>

text \<open>
  Claim C1. For a worker whose \<open>Run\<close> panics whenever it is called, \<open>startBee\<close> from
  0 calls \<open>Run\<close> three times, logging a failure with the counts 0, 1 and 2, then logs
  the termination at count 3 and returns normally. The worker map is as before.
\<close>

theorem startBee_three_attempts:
  assumes "\<forall>v. \<exists>p. Run v bee = Panic p"
  shows "\<exists>w' p0 p1 p2 e0 e1 e2.
     startBee Run w bee 0 = (w', Return ()) \<and>
     since w w' =
       [CallRun bee (Panic p0), WgDone (bee_WaitGroup w bee), Println (LogFatalBee e0 0),
        CallRun bee (Panic p1), WgDone (bee_WaitGroup w bee), Println (LogFatalBee e1 1),
        CallRun bee (Panic p2), WgDone (bee_WaitGroup w bee), Println (LogFatalBee e2 2),
        Println (LogEvil (bee_Name w bee) 3)] \<and>
     attempts bee (since w w') = 3 \<and>
     bees w' = bees w \<and> GetBee w' = GetBee w"
proof -
  let ?g = "bee_WaitGroup w bee"
  from assms obtain p0 where p0: "Run w bee = Panic p0" by blast
  from startBee_panic_step [of 0 Run w bee p0] p0 obtain e0 w1 where
    s0: "startBee Run w bee 0 = startBee Run w1 bee 1" and
    w1: "w1 = w\<lparr>wg_counter := (wg_counter w)(?g := int32 (wg_counter w ?g - 1)),
        trace := trace w @ [CallRun bee (Panic p0), WgDone ?g, Println (LogFatalBee e0 0)]\<rparr>"
    by auto
  have g1: "bee_WaitGroup w1 bee = ?g" by (simp add: w1 bee_WaitGroup_def)
  from assms obtain p1 where p1: "Run w1 bee = Panic p1" by blast
  from startBee_panic_step [of 1 Run w1 bee p1] p1 obtain e1 w2 where
    s1: "startBee Run w1 bee 1 = startBee Run w2 bee 2" and
    w2: "w2 = w1\<lparr>wg_counter := (wg_counter w1)(?g := int32 (wg_counter w1 ?g - 1)),
        trace := trace w1 @ [CallRun bee (Panic p1), WgDone ?g, Println (LogFatalBee e1 1)]\<rparr>"
    unfolding g1 by auto
  have g2: "bee_WaitGroup w2 bee = ?g" by (simp add: w2 w1 bee_WaitGroup_def)
  from assms obtain p2 where p2: "Run w2 bee = Panic p2" by blast
  from startBee_panic_step [of 2 Run w2 bee p2] p2 obtain e2 w3 where
    s2: "startBee Run w2 bee 2 = startBee Run w3 bee 3" and
    w3: "w3 = w2\<lparr>wg_counter := (wg_counter w2)(?g := int32 (wg_counter w2 ?g - 1)),
        trace := trace w2 @ [CallRun bee (Panic p2), WgDone ?g, Println (LogFatalBee e2 2)]\<rparr>"
    unfolding g2 by auto
  let ?w' = "println w3 (LogEvil (bee_Name w3 bee) 3)"
  have s3: "startBee Run w3 bee 3 = (?w', Return ())"
    by (subst startBee_attempt) simp
  have t: "trace ?w' = trace w @
       [CallRun bee (Panic p0), WgDone ?g, Println (LogFatalBee e0 0),
        CallRun bee (Panic p1), WgDone ?g, Println (LogFatalBee e1 1),
        CallRun bee (Panic p2), WgDone ?g, Println (LogFatalBee e2 2),
        Println (LogEvil (bee_Name w bee) 3)]"
    by (simp add: bee_Name_def println_def emit_def w3 w2 w1)
  have b: "bees ?w' = bees w" by (simp add: println_def emit_def w3 w2 w1)
  have "startBee Run w bee 0 = (?w', Return ())" using s0 s1 s2 s3 by simp
  moreover have "attempts bee (since w ?w') = 3" by (simp add: since_append [OF t])
  moreover have "GetBee ?w' = GetBee w" by (simp add: fun_eq_iff GetBee_def b)
  ultimately show ?thesis using since_append [OF t] b by blast
qed

text \<open>The same on a sample state.\<close>

theorem startBee_three_attempts_witness:
  "(\<forall>v. \<exists>p. crashing_Run v 0 = Panic p) \<and>
   snd (startBee crashing_Run hive 0 0) = Return () \<and>
   attempts 0 (since hive (fst (startBee crashing_Run hive 0 0))) = 3 \<and>
   GetBee (fst (startBee crashing_Run hive 0 0)) ''light1'' = Some 0"
proof -
  have h: "\<forall>v. \<exists>p. crashing_Run v 0 = Panic p" by (simp add: crashing_Run_def)
  have g: "GetBee hive ''light1'' = Some 0" by (simp add: hive_eq GetBee_def)
  from startBee_three_attempts [where Run = crashing_Run and bee = 0 and w = hive] h obtain w' where
    "startBee crashing_Run hive 0 0 = (w', Return ())"
    "attempts 0 (since hive w') = 3" "GetBee w' = GetBee hive"
    by blast
  with h g show ?thesis by simp
qed

text \<open>
  Claim C2 at an event of a worker that is not registered: \<open>GetBee\<close> returns nil, the
  call of \<open>LogEvent\<close> through it panics in the dispatcher itself, and the event behind
  it, of a registered worker, is never handled. The same event alone is dispatched.
\<close>

theorem handleEvents_unknown_bee_crashes:
  "GetBee hive ''ghost'' = None \<and> \<not> chan_closed hive (eventsIn hive) \<and>
   handleEvents hive [\<lparr>EventBee = ''ghost'', EventName = ''on'', EventOptions = []\<rparr>,
                      \<lparr>EventBee = ''light1'', EventName = ''on'', EventOptions = []\<rparr>] =
     (hive, Crashed ''runtime error: invalid memory address or nil pointer dereference'') \<and>
   snd (handleEvents hive [\<lparr>EventBee = ''light1'', EventName = ''on'', EventOptions = []\<rparr>]) = Blocked \<and>
   since hive (fst (handleEvents hive
       [\<lparr>EventBee = ''light1'', EventName = ''on'', EventOptions = []\<rparr>])) =
     [CallLogEvent 0, Println LogBlank, Println (LogEventReceived ''light1'' ''on''),
      Go (execChains_task \<lparr>EventBee = ''light1'', EventName = ''on'', EventOptions = []\<rparr>)]"
  by (simp add: hive_eq GetBee_def call_LogEvent_def println_def emit_def since_def)

text \<open>
  Claim C3. For a descriptor whose class has no factory, \<open>NewBeeInstance\<close> panics and
  the state is the one before the call: no worker was made and the registry has the
  entries it had. For a class that has a factory, whose \<open>New\<close> returns a worker,
  \<open>NewBeeInstance\<close> returns that worker after registering it: the lookup of its name
  finds it and \<open>GetBees\<close> lists it. The two outcomes differ: a panic, a returned worker.
\<close>

theorem NewBeeInstance_unknown_or_registered:
  "(Class bee \<notin> fst ` set (factories w) \<longrightarrow>
      NewBeeInstance New w bee = (w, Panic (''Unknown bee-class in config file: '' @ Class bee))) \<and>
   (\<forall>factory w1 md.
      wf_registry w \<and> (Class bee, factory) \<in> set (factories w) \<and>
      New factory (Name bee) (Description bee) (Options bee) w = (w1, Return md) \<longrightarrow>
        NewBeeInstance New w bee = (RegisterBee w1 md, Return md) \<and>
        GetBee (RegisterBee w1 md) (bee_Name w1 md) = Some md \<and>
        md \<in> set (GetBees (RegisterBee w1 md)))"
proof (intro conjI allI impI)
  assume "Class bee \<notin> fst ` set (factories w)"
  then have "map_of (factories w) (Class bee) = None" by (simp add: map_of_eq_None_iff)
  then show "NewBeeInstance New w bee = (w, Panic (''Unknown bee-class in config file: '' @ Class bee))"
    by (simp add: NewBeeInstance_def GetFactory_def)
next
  fix factory w1 md
  assume a: "wf_registry w \<and> (Class bee, factory) \<in> set (factories w) \<and>
      New factory (Name bee) (Description bee) (Options bee) w = (w1, Return md)"
  then have "map_of (factories w) (Class bee) = Some factory"
    by (simp add: wf_registry_def)
  with a show "NewBeeInstance New w bee = (RegisterBee w1 md, Return md)"
    by (simp add: NewBeeInstance_def GetFactory_def)
  have g: "GetBee (RegisterBee w1 md) (bee_Name w1 md) = Some md"
    by (simp add: GetBee_eq bees_RegisterBee update_conv')
  then show "GetBee (RegisterBee w1 md) (bee_Name w1 md) = Some md" .
  from g have "map_of (bees (RegisterBee w1 md)) (bee_Name w1 md) = Some md"
    by (simp add: GetBee_eq)
  then have "(bee_Name w1 md, md) \<in> set (bees (RegisterBee w1 md))" by (rule map_of_SomeD)
  then show "md \<in> set (GetBees (RegisterBee w1 md))" by (force simp: GetBees_eq)
qed

text \<open>The same on a sample state.\<close>

theorem NewBeeInstance_unknown_or_registered_witness:
  "''nope'' \<notin> fst ` set (factories hive0) \<and>
   NewBeeInstance exec_New hive0 (light1\<lparr>Class := ''nope''\<rparr>) =
     (hive0, Panic ''Unknown bee-class in config file: nope'') \<and>
   wf_registry hive0 \<and> (''exec'', 0) \<in> set (factories hive0) \<and>
   snd (exec_New 0 ''light1'' ''a light'' [] hive0) = Return 0 \<and>
   NewBeeInstance exec_New hive0 light1 = (hive, Return 0) \<and>
   GetBee hive ''light1'' = Some 0 \<and> GetBees hive = [0] \<and> GetBees hive0 = []"
proof -
  let ?w1 = "fst (exec_New 0 ''light1'' ''a light'' [] hive0)"
  have a: "Class (light1\<lparr>Class := ''nope''\<rparr>) \<notin> fst ` set (factories hive0)"
    by (simp add: hive0_def init_world_def)
  have b: "wf_registry hive0 \<and> (Class light1, 0) \<in> set (factories hive0) \<and>
      exec_New 0 (Name light1) (Description light1) (Options light1) hive0 = (?w1, Return 0)"
    by (simp add: wf_registry_def sample_defs)
  have n: "bee_Name ?w1 0 = ''light1''" by (simp add: sample_defs)
  from NewBeeInstance_unknown_or_registered [of "light1\<lparr>Class := ''nope''\<rparr>" hive0 exec_New] a
  have 1: "NewBeeInstance exec_New hive0 (light1\<lparr>Class := ''nope''\<rparr>) =
     (hive0, Panic ''Unknown bee-class in config file: nope'')"
    by simp
  from NewBeeInstance_unknown_or_registered [of light1 hive0 exec_New] b
  have 2: "NewBeeInstance exec_New hive0 light1 = (RegisterBee ?w1 0, Return 0) \<and>
        GetBee (RegisterBee ?w1 0) (bee_Name ?w1 0) = Some 0"
    by blast
  then have 3: "NewBeeInstance exec_New hive0 light1 = (hive, Return 0)"
    by (simp add: hive_def)
  have 4: "GetBee hive ''light1'' = Some 0 \<and> GetBees hive = [0] \<and> GetBees hive0 = []"
    by (simp add: hive_eq GetBee_def GetBees_def hive0_def init_world_def)
  have 5: "''nope'' \<notin> fst ` set (factories hive0) \<and> (''exec'', 0) \<in> set (factories hive0)"
    by (simp add: hive0_def init_world_def)
  have 6: "wf_registry hive0 \<and> snd (exec_New 0 ''light1'' ''a light'' [] hive0) = Return 0"
    by (simp add: wf_registry_def sample_defs)
  from 1 3 4 5 6 show ?thesis by blast
qed

text \<open>
  Claim C4. \<open>NewBee\<close> makes a new wait group and adds 1 to it, once. Every attempt of
  \<open>startBee\<close> calls \<open>Done\<close> on the worker's wait group once, so the calls of \<open>Done\<close>
  are as many as the calls of \<open>Run\<close>, and \<open>startBee\<close> never adds to a wait group. When
  a call of \<open>Run\<close> has panicked under \<open>startBee\<close> from 0, \<open>Done\<close> has been called at
  least twice: for a wait group that was incremented once and not yet decremented, more
  often than it was incremented.
\<close>

theorem WaitGroup_done_per_attempt:
  "(\<exists>w1 b. NewBee w name factoryName description options = (w1, Return b) \<and>
        waitGroup b = next_wg w \<and> since w w1 = [WgAdd (waitGroup b) 1] \<and>
        wg_counter w1 (waitGroup b) = 1) \<and>
   (\<forall>v bee fatals.
        count_list (since v (fst (startBee Run v bee fatals))) (WgDone (bee_WaitGroup v bee)) =
        attempts bee (since v (fst (startBee Run v bee fatals)))) \<and>
   (\<forall>v bee e. CallRun bee (Panic e) \<in> set (since v (fst (startBee Run v bee 0))) \<longrightarrow>
        (\<forall>g d. WgAdd g d \<notin> set (since v (fst (startBee Run v bee 0)))) \<and>
        2 \<le> count_list (since v (fst (startBee Run v bee 0))) (WgDone (bee_WaitGroup v bee)) \<and>
        (count_list (trace v) (WgAdd (bee_WaitGroup v bee) 1) = 1 \<and>
         count_list (trace v) (WgDone (bee_WaitGroup v bee)) = 0 \<longrightarrow>
           count_list (trace (fst (startBee Run v bee 0))) (WgAdd (bee_WaitGroup v bee) 1)
           < count_list (trace (fst (startBee Run v bee 0))) (WgDone (bee_WaitGroup v bee))))"
proof (intro conjI allI impI)
  show "\<exists>w1 b. NewBee w name factoryName description options = (w1, Return b) \<and>
        waitGroup b = next_wg w \<and> since w w1 = [WgAdd (waitGroup b) 1] \<and>
        wg_counter w1 (waitGroup b) = 1"
    by (simp add: NewBee_def make_chan_def new_WaitGroup_def wg_Add_def int32_def emit_def Let_def since_def)
next
  fix v bee fatals
  from startBee_effects [of Run v bee fatals] obtain w' t where
    "startBee Run v bee fatals = (w', Return ())" "trace w' = trace v @ t"
    "count_list t (WgDone (bee_WaitGroup v bee)) = attempts bee t"
    by auto
  then show "count_list (since v (fst (startBee Run v bee fatals))) (WgDone (bee_WaitGroup v bee)) =
        attempts bee (since v (fst (startBee Run v bee fatals)))"
    by simp
next
  fix v bee e g d
  from startBee_effects [of Run v bee 0] obtain w' t where
    "startBee Run v bee 0 = (w', Return ())" "trace w' = trace v @ t"
    "\<forall>g d. WgAdd g d \<notin> set t"
    by auto
  then show "WgAdd g d \<notin> set (since v (fst (startBee Run v bee 0)))" by simp
next
  fix v bee e
  assume a: "CallRun bee (Panic e) \<in> set (since v (fst (startBee Run v bee 0)))"
  from startBee_effects [of Run v bee 0] obtain w' t where
    s: "startBee Run v bee 0 = (w', Return ())" "trace w' = trace v @ t" and
    c: "count_list t (WgDone (bee_WaitGroup v bee)) = attempts bee t"
    by auto
  from startBee_first_failure [OF a] s c
  show "2 \<le> count_list (since v (fst (startBee Run v bee 0))) (WgDone (bee_WaitGroup v bee))"
    by simp
next
  fix v bee e
  let ?g = "bee_WaitGroup v bee"
  assume a: "CallRun bee (Panic e) \<in> set (since v (fst (startBee Run v bee 0)))"
    and h: "count_list (trace v) (WgAdd ?g 1) = 1 \<and> count_list (trace v) (WgDone ?g) = 0"
  from startBee_effects [of Run v bee 0] obtain w' t where
    s: "startBee Run v bee 0 = (w', Return ())" "trace w' = trace v @ t" and
    c: "count_list t (WgDone ?g) = attempts bee t" and
    n: "\<forall>g d. WgAdd g d \<notin> set t"
    by auto
  from n have z: "count_list t (WgAdd ?g 1) = 0" by simp
  from startBee_first_failure [OF a] s c have "2 \<le> count_list t (WgDone ?g)" by simp
  with h z s show "count_list (trace (fst (startBee Run v bee 0))) (WgAdd ?g 1)
           < count_list (trace (fst (startBee Run v bee 0))) (WgDone ?g)"
    by simp
qed

text \<open>The same on a sample state.\<close>

theorem WaitGroup_done_per_attempt_witness:
  "CallRun 0 (Panic ''boom'') \<in> set (since hive (fst (startBee crashing_Run hive 0 0))) \<and>
   count_list (trace hive) (WgAdd (bee_WaitGroup hive 0) 1) = 1 \<and>
   count_list (trace hive) (WgDone (bee_WaitGroup hive 0)) = 0 \<and>
   count_list (trace (fst (startBee crashing_Run hive 0 0))) (WgAdd (bee_WaitGroup hive 0) 1)
     < count_list (trace (fst (startBee crashing_Run hive 0 0))) (WgDone (bee_WaitGroup hive 0)) \<and>
   count_list (since hive (fst (startBee crashing_Run hive 0 0))) (WgDone (bee_WaitGroup hive 0)) =
     attempts 0 (since hive (fst (startBee crashing_Run hive 0 0)))"
proof -
  have a: "CallRun 0 (Panic ''boom'') \<in> set (since hive (fst (startBee crashing_Run hive 0 0)))"
    by (simp add: hive_crashed since_def)
  have b: "count_list (trace hive) (WgAdd (bee_WaitGroup hive 0) 1) = 1 \<and>
     count_list (trace hive) (WgDone (bee_WaitGroup hive 0)) = 0"
    by (simp add: hive_eq bee_WaitGroup_def)
  from WaitGroup_done_per_attempt [of hive0 "''light1''" "''exec''" "''a light''" "[]" crashing_Run]
  have c: "\<forall>v bee fatals.
        count_list (since v (fst (startBee crashing_Run v bee fatals))) (WgDone (bee_WaitGroup v bee)) =
        attempts bee (since v (fst (startBee crashing_Run v bee fatals)))"
    and d: "\<forall>v bee e. CallRun bee (Panic e) \<in> set (since v (fst (startBee crashing_Run v bee 0))) \<longrightarrow>
        (\<forall>g d. WgAdd g d \<notin> set (since v (fst (startBee crashing_Run v bee 0)))) \<and>
        2 \<le> count_list (since v (fst (startBee crashing_Run v bee 0))) (WgDone (bee_WaitGroup v bee)) \<and>
        (count_list (trace v) (WgAdd (bee_WaitGroup v bee) 1) = 1 \<and>
         count_list (trace v) (WgDone (bee_WaitGroup v bee)) = 0 \<longrightarrow>
           count_list (trace (fst (startBee crashing_Run v bee 0))) (WgAdd (bee_WaitGroup v bee) 1)
           < count_list (trace (fst (startBee crashing_Run v bee 0))) (WgDone (bee_WaitGroup v bee)))"
    by blast+
  from d a b c show ?thesis by blast
qed

text \<open>
  Claim C5, as the code has it. For every worker \<open>RestartBee\<close> calls \<open>Stop\<close>, hands the
  worker a channel made for the purpose, and adds 1 to the wait group the worker has,
  in this order: no wait group is made, and the counter is the one before plus 1, as a
  32-bit integer. When the counter is not negative after that, \<open>RestartBee\<close> goes on to
  call \<open>Start\<close> and to launch \<open>startBee\<close> with 0, and returns.
\<close>

theorem RestartBee_rearms_handle:
  "\<exists>w' r. RestartBee w bee = (w', r) \<and>
     take 3 (since w w') =
       [CallStop bee, CallSetSigChan bee (next_chan w), WgAdd (bee_WaitGroup w bee) 1] \<and>
     next_chan w' = Suc (next_chan w) \<and> \<not> chan_closed w' (next_chan w) \<and>
     next_wg w' = next_wg w \<and> bee_WaitGroup w' bee = bee_WaitGroup w bee \<and>
     wg_counter w' (bee_WaitGroup w bee) = int32 (wg_counter w (bee_WaitGroup w bee) + 1) \<and>
     (0 \<le> int32 (wg_counter w (bee_WaitGroup w bee) + 1) \<longrightarrow>
        r = Return () \<and>
        since w w' = [CallStop bee, CallSetSigChan bee (next_chan w),
                      WgAdd (bee_WaitGroup w bee) 1, CallStart bee, Go (startBee_task bee 0)])"
  by (simp add: RestartBee_def call_Stop_def call_Start_def call_SetSigChan_def make_chan_def
      wg_Add_def emit_def bee_WaitGroup_def Let_def since_def)

text \<open>The same on a sample state.\<close>

theorem RestartBee_rearms_handle_witness:
  "0 \<le> int32 (wg_counter hive (bee_WaitGroup hive 0) + 1) \<and>
   snd (RestartBee hive 0) = Return () \<and>
   since hive (fst (RestartBee hive 0)) =
     [CallStop 0, CallSetSigChan 0 2, WgAdd 0 1, CallStart 0, Go (startBee_task 0 0)] \<and>
   wg_counter (fst (RestartBee hive 0)) 0 = 2"
proof -
  have h: "0 \<le> int32 (wg_counter hive (bee_WaitGroup hive 0) + 1)"
    by (simp add: hive_eq bee_WaitGroup_def int32_def)
  have n: "next_chan hive = 2 \<and> bee_WaitGroup hive 0 = 0 \<and>
      int32 (wg_counter hive (bee_WaitGroup hive 0) + 1) = 2"
    by (simp add: hive_eq bee_WaitGroup_def int32_def)
  from RestartBee_rearms_handle [of hive 0] n h show ?thesis by auto
qed

text \<open>
  Claim C5 as stated has the worker get a fresh completion handle. For the worker of
  \<open>hive\<close>, whose wait group stands at 1, \<open>RestartBee\<close> makes no wait group: the
  worker keeps the one it had, which then stands at 2.
\<close>

theorem RestartBee_handle_not_fresh:
  "snd (RestartBee hive 0) = Return () \<and>
   next_wg (fst (RestartBee hive 0)) = next_wg hive \<and>
   bee_WaitGroup (fst (RestartBee hive 0)) 0 = bee_WaitGroup hive 0 \<and>
   bee_WaitGroup (fst (RestartBee hive 0)) 0 < next_wg hive \<and>
   wg_counter hive (bee_WaitGroup hive 0) = 1 \<and>
   wg_counter (fst (RestartBee hive 0)) (bee_WaitGroup (fst (RestartBee hive 0)) 0) = 2"
  by (simp add: hive_eq RestartBee_def call_Stop_def call_Start_def call_SetSigChan_def make_chan_def
      wg_Add_def int32_def emit_def bee_WaitGroup_def Let_def)

text \<open>
  Claim C6. When \<open>StopBees\<close> returns, \<open>Stop\<close> has been called during the call on
  every worker that was registered, the event channel is closed, so that the dispatcher
  leaves its loop whatever is pending, and the registry is empty: \<open>GetBees\<close> is empty
  and every lookup misses.
\<close>

theorem StopBees_stops_closes_clears:
  assumes "StopBees w = (w', Return ())"
  shows "(\<forall>(n, bee) \<in> set (bees w). CallStop bee \<in> set (since w w')) \<and>
         eventsIn w' = eventsIn w \<and> chan_closed w' (eventsIn w') \<and>
         (\<forall>pending. snd (handleEvents w' pending) = Stopped) \<and>
         bees w' = [] \<and> GetBees w' = [] \<and> (\<forall>identifier. GetBee w' identifier = None)"
proof -
  from assms have o: "\<not> chan_closed w (eventsIn w)"
    by (auto simp: StopBees_eq split: if_splits)
  with assms have w': "w' = w\<lparr>trace := trace w @ stop_effects w (bees w) @ [Close (eventsIn w)],
               chan_closed := (chan_closed w)(eventsIn w := True), bees := []\<rparr>"
    by (simp add: StopBees_eq)
  have c: "chan_closed w' (eventsIn w')" by (simp add: w')
  have h: "snd (handleEvents w' pending) = Stopped" for pending
    using c by (cases pending) simp_all
  show ?thesis using h c
    by (auto simp: w' since_def GetBees_eq GetBee_eq CallStop_in_stop_effects)
qed

text \<open>The same on a sample state.\<close>

theorem StopBees_stops_closes_clears_witness:
  "StopBees hive = (fst (StopBees hive), Return ()) \<and>
   bees hive = [(''light1'', 0)] \<and>
   CallStop 0 \<in> set (since hive (fst (StopBees hive))) \<and>
   chan_closed (fst (StopBees hive)) (eventsIn hive) \<and>
   GetBees (fst (StopBees hive)) = [] \<and> GetBee (fst (StopBees hive)) ''light1'' = None"
proof -
  have h: "StopBees hive = (fst (StopBees hive), Return ())"
    by (simp add: StopBees_eq hive_eq)
  have b: "bees hive = [(''light1'', 0)]" by (simp add: hive_eq)
  note T = StopBees_stops_closes_clears [OF h]
  from T b have 1: "CallStop 0 \<in> set (since hive (fst (StopBees hive)))" by simp
  from T have 2: "chan_closed (fst (StopBees hive)) (eventsIn hive)" by metis
  from T have 3: "GetBees (fst (StopBees hive)) = [] \<and> GetBee (fst (StopBees hive)) ''light1'' = None"
    by blast
  from h b 1 2 3 show ?thesis by blast
qed

text \<open>
  Claim C7. Registering workers with pairwise distinct names in an empty registry gives
  \<open>GetBees\<close> as many entries as there are workers. Registering a worker under a name
  that is a key already leaves the number of entries as it was, makes the lookup of that
  name return the new worker, and leaves every other lookup as it was. \<open>RegisterBee\<close>
  returns the state only: it reports nothing.
\<close>

theorem RegisterBee_size_and_overwrite:
  "(bees w = [] \<and> distinct (map (bee_Name w) workers) \<longrightarrow>
      length (GetBees (fold (\<lambda>bee w. RegisterBee w bee) workers w)) = length workers) \<and>
   (bee_Name w bee \<in> fst ` set (bees w) \<longrightarrow>
      length (GetBees (RegisterBee w bee)) = length (GetBees w) \<and>
      GetBee (RegisterBee w bee) (bee_Name w bee) = Some bee \<and>
      (\<forall>other. other \<noteq> bee_Name w bee \<longrightarrow> GetBee (RegisterBee w bee) other = GetBee w other))"
proof (intro conjI impI)
  assume a: "bees w = [] \<and> distinct (map (bee_Name w) workers)"
  then have "bee_Name w ` set workers \<inter> fst ` set (bees w) = {}" by simp
  with a show "length (GetBees (fold (\<lambda>bee w. RegisterBee w bee) workers w)) = length workers"
    using fold_RegisterBee [of w workers] by (simp add: GetBees_eq)
next
  assume "bee_Name w bee \<in> fst ` set (bees w)"
  then show "length (GetBees (RegisterBee w bee)) = length (GetBees w)"
    by (simp add: GetBees_eq bees_RegisterBee length_AList_update)
next
  show "GetBee (RegisterBee w bee) (bee_Name w bee) = Some bee"
    by (simp add: GetBee_eq bees_RegisterBee update_conv')
next
  show "\<forall>other. other \<noteq> bee_Name w bee \<longrightarrow> GetBee (RegisterBee w bee) other = GetBee w other"
    by (simp add: GetBee_eq bees_RegisterBee update_conv')
qed

text \<open>The same on a sample state.\<close>

theorem RegisterBee_size_and_overwrite_witness:
  "bees nursery = [] \<and> distinct (map (bee_Name nursery) [0, 1]) \<and>
   length (GetBees (fold (\<lambda>bee w. RegisterBee w bee) [0, 1] nursery)) = 2 \<and>
   bee_Name hive2 1 \<in> fst ` set (bees hive2) \<and> GetBee hive2 (bee_Name hive2 1) = Some 0 \<and>
   length (GetBees (RegisterBee hive2 1)) = length (GetBees hive2) \<and>
   GetBee (RegisterBee hive2 1) (bee_Name hive2 1) = Some 1"
proof -
  have a: "bees nursery = [] \<and> distinct (map (bee_Name nursery) [0, 1])"
    by (simp add: nursery_def sample_defs)
  have b: "bee_Name hive2 1 \<in> fst ` set (bees hive2) \<and> GetBee hive2 (bee_Name hive2 1) = Some 0"
    by (simp add: hive2_def hive_eq GetBee_def exec_New_def NewBee_def make_chan_def
        new_WaitGroup_def wg_Add_def int32_def emit_def bee_Name_def Let_def)
  from RegisterBee_size_and_overwrite [of nursery "[0, 1]" 1] a
  have c: "length (GetBees (fold (\<lambda>bee w. RegisterBee w bee) [0, 1] nursery)) = 2"
    by simp
  from RegisterBee_size_and_overwrite [of hive2 "[]" 1] b
  have d: "length (GetBees (RegisterBee hive2 1)) = length (GetBees hive2) \<and>
      GetBee (RegisterBee hive2 1) (bee_Name hive2 1) = Some 1"
    by blast
  from a b c d show ?thesis by blast
qed

text \<open>
  Claim C8. The task launched for an event calls \<open>execChains\<close> once and returns
  normally whatever \<open>execChains\<close> does; when \<open>execChains\<close> panics, the task logs the
  panic value right after the call, and nothing else happens.
\<close>

theorem handleEvents_task_recovers:
  "snd (handleEvents_task execChains w event) = Return () \<and>
   count_list (trace (fst (handleEvents_task execChains w event))) (CallExecChains event) =
     count_list (trace w) (CallExecChains event) + 1 \<and>
   (\<forall>e. execChains w event = Panic e \<longrightarrow>
      trace (fst (handleEvents_task execChains w event)) =
        trace w @ [CallExecChains event, Println (LogFatalChain e)])"
  by (auto simp: handleEvents_task_def println_def emit_def split: outcome.splits)

text \<open>The same on a sample state.\<close>

theorem handleEvents_task_recovers_witness:
  "(\<lambda>w e. Panic ''bad chain'') hive \<lparr>EventBee = ''light1'', EventName = ''on'', EventOptions = []\<rparr>
     = (Panic ''bad chain'' :: unit outcome) \<and>
   snd (handleEvents_task (\<lambda>w e. Panic ''bad chain'') hive
          \<lparr>EventBee = ''light1'', EventName = ''on'', EventOptions = []\<rparr>) = Return () \<and>
   trace (fst (handleEvents_task (\<lambda>w e. Panic ''bad chain'') hive
          \<lparr>EventBee = ''light1'', EventName = ''on'', EventOptions = []\<rparr>)) =
     trace hive @ [CallExecChains \<lparr>EventBee = ''light1'', EventName = ''on'', EventOptions = []\<rparr>,
                   Println (LogFatalChain ''bad chain'')]"
  using handleEvents_task_recovers [of "\<lambda>w e. Panic ''bad chain''" hive
          "\<lparr>EventBee = ''light1'', EventName = ''on'', EventOptions = []\<rparr>"]
  by simp

text \<open>
  Claim C9. A lookup of an identifier that is not a key of the worker map (of the factory
  map) returns nil, and a lookup of a key returns the entry stored under it. Both
  functions return a possibly-nil pointer and have no way to fail.
\<close>

theorem lookup_miss_and_hit:
  "(identifier \<notin> fst ` set (bees w) \<longrightarrow> GetBee w identifier = None) \<and>
   (identifier \<notin> fst ` set (factories w) \<longrightarrow> GetBeeFactory w identifier = None) \<and>
   (wf_registry w \<longrightarrow>
      (\<forall>bee. (identifier, bee) \<in> set (bees w) \<longrightarrow> GetBee w identifier = Some bee) \<and>
      (\<forall>f. (identifier, f) \<in> set (factories w) \<longrightarrow> GetBeeFactory w identifier = Some f))"
  by (auto simp: GetBee_eq GetBeeFactory_eq wf_registry_def map_of_eq_None_iff)

text \<open>The same on a sample state.\<close>

theorem lookup_miss_and_hit_witness:
  "''ghost'' \<notin> fst ` set (bees hive) \<and> GetBee hive ''ghost'' = None \<and>
   ''ghost'' \<notin> fst ` set (factories hive) \<and> GetBeeFactory hive ''ghost'' = None \<and>
   wf_registry hive \<and>
   (''light1'', 0) \<in> set (bees hive) \<and> GetBee hive ''light1'' = Some 0 \<and>
   (''exec'', 0) \<in> set (factories hive) \<and> GetBeeFactory hive ''exec'' = Some 0"
proof -
  have a: "''ghost'' \<notin> fst ` set (bees hive) \<and> ''ghost'' \<notin> fst ` set (factories hive)"
    by (simp add: hive_eq)
  have b: "wf_registry hive \<and> (''light1'', 0) \<in> set (bees hive) \<and>
      (''exec'', 0) \<in> set (factories hive)"
    by (simp add: hive_eq wf_registry_def)
  from lookup_miss_and_hit [of "''ghost''" hive] a
  have c: "GetBee hive ''ghost'' = None \<and> GetBeeFactory hive ''ghost'' = None" by blast
  from lookup_miss_and_hit [of "''light1''" hive] b
  have d: "GetBee hive ''light1'' = Some 0" by blast
  from lookup_miss_and_hit [of "''exec''" hive] b
  have e: "GetBeeFactory hive ''exec'' = Some 0" by blast
  from a b c d e show ?thesis by blast
qed

text \<open>
  Claim C10. \<open>StopBees\<close> leaves the factories and the chains as they were, whether it
  returns or panics.
\<close>

theorem StopBees_frame:
  "GetBeeFactory (fst (StopBees w)) = GetBeeFactory w \<and>
   GetBeeFactories (fst (StopBees w)) = GetBeeFactories w \<and>
   Chains (fst (StopBees w)) = Chains w \<and>
   factories (fst (StopBees w)) = factories w \<and> chains (fst (StopBees w)) = chains w"
  by (simp add: StopBees_eq GetBeeFactory_def GetBeeFactories_def Chains_def fun_eq_iff)

end
